theory Spec2Isabelle
  imports Complex_Main "HOL-Library.AList" "HOL-Library.Multiset"
begin

section \<open>JavaScript numbers\<close>

text \<open>
  The program computes on JavaScript numbers. The model keeps the three special values
  that the code itself produces (\<^verbatim>\<open>Math.max()\<close> of nothing is \<^verbatim>\<open>-Infinity\<close>, \<^verbatim>\<open>Math.min()\<close> of
  nothing is \<^verbatim>\<open>Infinity\<close>, \<^verbatim>\<open>0 * Infinity\<close> is \<^verbatim>\<open>NaN\<close>) and idealises the finite doubles as
  real numbers: rounding of finite results and the sign of zero are not modelled.
  A cell that holds \<^verbatim>\<open>undefined\<close> behaves as \<^verbatim>\<open>NaN\<close> in every arithmetic operation and
  comparison the program applies to it, so it is read as \<open>NaN\<close>.
\<close>

datatype jsnum = NaN | NInf | Fin real | PInf

fun js_neg :: "jsnum \<Rightarrow> jsnum" where
  "js_neg NaN = NaN"
| "js_neg NInf = PInf"
| "js_neg PInf = NInf"
| "js_neg (Fin a) = Fin (- a)"

fun js_add :: "jsnum \<Rightarrow> jsnum \<Rightarrow> jsnum" where
  "js_add (Fin a) (Fin b) = Fin (a + b)"
| "js_add NaN y = NaN"
| "js_add x NaN = NaN"
| "js_add PInf NInf = NaN"
| "js_add NInf PInf = NaN"
| "js_add PInf y = PInf"
| "js_add x PInf = PInf"
| "js_add NInf y = NInf"
| "js_add x NInf = NInf"

definition js_sub :: "jsnum \<Rightarrow> jsnum \<Rightarrow> jsnum" where
  "js_sub x y = js_add x (js_neg y)"

text \<open>The product of an infinity and a finite number: \<open>NaN\<close> at zero, else by sign.\<close>

definition inf_times :: "bool \<Rightarrow> real \<Rightarrow> jsnum" where
  "inf_times positive a =
     (if a = 0 then NaN else if (0 < a) = positive then PInf else NInf)"

fun js_mul :: "jsnum \<Rightarrow> jsnum \<Rightarrow> jsnum" where
  "js_mul (Fin a) (Fin b) = Fin (a * b)"
| "js_mul NaN y = NaN"
| "js_mul x NaN = NaN"
| "js_mul PInf (Fin b) = inf_times True b"
| "js_mul NInf (Fin b) = inf_times False b"
| "js_mul (Fin a) PInf = inf_times True a"
| "js_mul (Fin a) NInf = inf_times False a"
| "js_mul PInf PInf = PInf"
| "js_mul NInf NInf = PInf"
| "js_mul PInf NInf = NInf"
| "js_mul NInf PInf = NInf"

text \<open>
  Division is used once, for \<^verbatim>\<open>1 / matrix.statesCount\<close>; the divisor zero is the
  positive zero of a count.
\<close>

fun js_div :: "jsnum \<Rightarrow> jsnum \<Rightarrow> jsnum" where
  "js_div (Fin a) (Fin b) =
     (if b = 0 then inf_times True a else Fin (a / b))"
| "js_div NaN y = NaN"
| "js_div x NaN = NaN"
| "js_div (Fin a) PInf = Fin 0"
| "js_div (Fin a) NInf = Fin 0"
| "js_div PInf (Fin b) = (if 0 \<le> b then PInf else NInf)"
| "js_div NInf (Fin b) = (if 0 \<le> b then NInf else PInf)"
| "js_div PInf y = NaN"
| "js_div NInf y = NaN"

text \<open>\<^verbatim>\<open>x > y\<close>: false as soon as one side is \<open>NaN\<close>.\<close>

fun js_gt :: "jsnum \<Rightarrow> jsnum \<Rightarrow> bool" where
  "js_gt (Fin a) (Fin b) = (b < a)"
| "js_gt NaN y = False"
| "js_gt x NaN = False"
| "js_gt PInf PInf = False"
| "js_gt PInf y = True"
| "js_gt x PInf = False"
| "js_gt NInf y = False"
| "js_gt x NInf = True"

text \<open>\<^verbatim>\<open>x === y\<close> on numbers: \<open>NaN\<close> equals nothing, itself included.\<close>

definition js_eq :: "jsnum \<Rightarrow> jsnum \<Rightarrow> bool" where
  "js_eq x y = (x \<noteq> NaN \<and> x = y)"

text \<open>\<^verbatim>\<open>x || d\<close> on a number: zero and \<open>NaN\<close> are falsy.\<close>

definition js_truthy :: "jsnum \<Rightarrow> bool" where
  "js_truthy x = (x \<noteq> NaN \<and> x \<noteq> Fin 0)"

text \<open>
  \<^verbatim>\<open>Math.max(...xs)\<close> and \<^verbatim>\<open>Math.min(...xs)\<close>: \<open>NaN\<close> as soon as one argument is
  \<open>NaN\<close>, and the neutral infinity for no argument at all.
\<close>

definition max_step :: "jsnum \<Rightarrow> jsnum \<Rightarrow> jsnum" where
  "max_step x acc = (if acc = NaN \<or> x = NaN then NaN else if js_gt x acc then x else acc)"

definition min_step :: "jsnum \<Rightarrow> jsnum \<Rightarrow> jsnum" where
  "min_step x acc = (if acc = NaN \<or> x = NaN then NaN else if js_gt acc x then x else acc)"

definition math_max :: "jsnum list \<Rightarrow> jsnum" where
  "math_max xs = fold max_step xs NInf"

definition math_min :: "jsnum list \<Rightarrow> jsnum" where
  "math_min xs = fold min_step xs PInf"

text \<open>\<^verbatim>\<open>xs.indexOf(v)\<close>: the first index whose element is \<^verbatim>\<open>===\<close> to \<open>v\<close>, or \<open>-1\<close>.\<close>

fun index_from :: "nat \<Rightarrow> jsnum list \<Rightarrow> jsnum \<Rightarrow> int" where
  "index_from k [] v = - 1"
| "index_from k (x # xs) v = (if js_eq x v then int k else index_from (Suc k) xs v)"

definition indexOf :: "jsnum list \<Rightarrow> jsnum \<Rightarrow> int" where
  "indexOf xs v = index_from 0 xs v"

section \<open>The decision matrix\<close>

text \<open>
  \<^verbatim>\<open>DecisionMatrix\<close> keeps its two counts apart from the arrays, so the record does too.
  A row is missing (\<^verbatim>\<open>data[i]\<close> is \<^verbatim>\<open>undefined\<close>) when the index is beyond the list of
  rows; a cell beyond the end of its row reads as \<^verbatim>\<open>undefined\<close>.
\<close>

record matrix =
  strategiesCount :: nat
  statesCount :: nat
  data :: "jsnum list list"
  strategies :: "string list"
  states :: "string list"

definition row_present :: "matrix \<Rightarrow> nat \<Rightarrow> bool" where
  "row_present m i = (i < length (data m))"

definition cell :: "matrix \<Rightarrow> nat \<Rightarrow> nat \<Rightarrow> jsnum" where
  "cell m i j = (if j < length (data m ! i) then data m ! i ! j else NaN)"

definition getRowMin :: "matrix \<Rightarrow> nat \<Rightarrow> jsnum" where
  "getRowMin m rowIndex =
     (if \<not> row_present m rowIndex then Fin 0 else math_min (data m ! rowIndex))"

definition getRowMax :: "matrix \<Rightarrow> nat \<Rightarrow> jsnum" where
  "getRowMax m rowIndex =
     (if \<not> row_present m rowIndex then Fin 0 else math_max (data m ! rowIndex))"

definition column_step :: "matrix \<Rightarrow> nat \<Rightarrow> nat \<Rightarrow> jsnum \<Rightarrow> jsnum" where
  "column_step m colIndex i mx =
     (if row_present m i \<and> js_gt (cell m i colIndex) mx then cell m i colIndex else mx)"

definition getColumnMax :: "matrix \<Rightarrow> nat \<Rightarrow> jsnum" where
  "getColumnMax m colIndex =
     (let mx = fold (column_step m colIndex) [0..<strategiesCount m] NInf
      in if mx = NInf then Fin 0 else mx)"

text \<open>
  The data model's invariant, as far as the criteria depend on it: every row that the
  strategy count announces is there, is not empty and holds finite numbers only.
\<close>

fun is_finite :: "jsnum \<Rightarrow> bool" where
  "is_finite (Fin a) = True"
| "is_finite x = False"

definition rows_finite :: "matrix \<Rightarrow> bool" where
  "rows_finite m =
     list_all (\<lambda>i. row_present m i \<and> data m ! i \<noteq> [] \<and> list_all is_finite (data m ! i))
       [0..<strategiesCount m]"

section \<open>Criterion results\<close>

text \<open>
  Every \<^verbatim>\<open>calculate\<close> returns the same object. The record keeps the computed fields;
  \<^verbatim>\<open>name\<close>, \<^verbatim>\<open>description\<close> and the display strings of \<^verbatim>\<open>calculations\<close> are left out, but
  the faults raised while those strings are built are kept: reading \<^verbatim>\<open>data[i].join\<close> or
  \<^verbatim>\<open>data[i][j]\<close> of a missing row, indexing a missing probability vector and calling
  \<^verbatim>\<open>toFixed\<close> on a missing probability all raise a \<^verbatim>\<open>TypeError\<close>.
  \<open>optimalIndex\<close> is the value of \<^verbatim>\<open>indexOf\<close>, so \<open>-1\<close> when nothing was found.
\<close>

datatype error = TypeError | ProbabilitiesRequired | UnknownCriterionType string

datatype criterion_type = wald | maximax | savage | hurwitz | bayes | laplace

record criterion_result =
  values_r :: "jsnum list"
  optimalIndex :: int
  optimalValue :: jsnum
  strategy :: string
  ctype :: criterion_type

text \<open>
  The sentinel string of the source (Russian for "undetermined", thirteen Cyrillic
  letters and a space), as its UTF-8 bytes.
\<close>

definition undetermined :: string where
  "undetermined =
     [CHR 0xD0, CHR 0x9D, CHR 0xD0, CHR 0xB5, CHR 0x20,
      CHR 0xD0, CHR 0xBE, CHR 0xD0, CHR 0xBF, CHR 0xD1, CHR 0x80, CHR 0xD0, CHR 0xB5,
      CHR 0xD0, CHR 0xB4, CHR 0xD0, CHR 0xB5, CHR 0xD0, CHR 0xBB, CHR 0xD0, CHR 0xB5,
      CHR 0xD0, CHR 0xBD, CHR 0xD0, CHR 0xBE]"

text \<open>
  \<^verbatim>\<open>matrix.strategies[strategyIndex] || sentinel\<close>: an index outside the array reads
  \<^verbatim>\<open>undefined\<close>, and the empty string is falsy as well.
\<close>

definition strategy_at :: "matrix \<Rightarrow> int \<Rightarrow> string" where
  "strategy_at m strategyIndex =
     (if 0 \<le> strategyIndex \<and> nat strategyIndex < length (strategies m)
         \<and> strategies m ! nat strategyIndex \<noteq> []
      then strategies m ! nat strategyIndex else undetermined)"

section \<open>The criteria\<close>

text \<open>
  The two loop shapes of the source: \<^verbatim>\<open>for (i ...) values.push(body(i))\<close>, and an inner
  \<^verbatim>\<open>for (j ...)\<close> that updates one accumulator. A fault in the body ends the loop.
\<close>

fun collect :: "(nat \<Rightarrow> error + 'a) \<Rightarrow> nat list \<Rightarrow> error + 'a list" where
  "collect body [] = Inr []"
| "collect body (i # rest) =
     (case body i of
        Inl e \<Rightarrow> Inl e
      | Inr v \<Rightarrow> (case collect body rest of Inl e \<Rightarrow> Inl e | Inr vs \<Rightarrow> Inr (v # vs)))"

fun accumulate :: "(nat \<Rightarrow> 'a \<Rightarrow> error + 'a) \<Rightarrow> nat list \<Rightarrow> 'a \<Rightarrow> error + 'a" where
  "accumulate body [] acc = Inr acc"
| "accumulate body (j # rest) acc =
     (case body j acc of Inl e \<Rightarrow> Inl e | Inr acc' \<Rightarrow> accumulate body rest acc')"

text \<open>
  Wald and Maximax build the trace string of row \<open>i\<close> from \<^verbatim>\<open>matrix.data[i].join\<close>, which
  faults on a missing row although \<open>getRowMin\<close> and \<open>getRowMax\<close> do not.
\<close>

definition WaldCriterion_row :: "matrix \<Rightarrow> nat \<Rightarrow> error + jsnum" where
  "WaldCriterion_row m i =
     (let minValue = getRowMin m i
      in if row_present m i then Inr minValue else Inl TypeError)"

definition WaldCriterion_calculate :: "matrix \<Rightarrow> error + criterion_result" where
  "WaldCriterion_calculate m =
     (case collect (WaldCriterion_row m) [0..<strategiesCount m] of
        Inl e \<Rightarrow> Inl e
      | Inr vs \<Rightarrow>
          (let maxValue = math_max vs; strategyIndex = indexOf vs maxValue
           in Inr \<lparr>values_r = vs, optimalIndex = strategyIndex, optimalValue = maxValue,
                    strategy = strategy_at m strategyIndex, ctype = wald\<rparr>))"

definition MaximaxCriterion_row :: "matrix \<Rightarrow> nat \<Rightarrow> error + jsnum" where
  "MaximaxCriterion_row m i =
     (let maxValue = getRowMax m i
      in if row_present m i then Inr maxValue else Inl TypeError)"

definition MaximaxCriterion_calculate :: "matrix \<Rightarrow> error + criterion_result" where
  "MaximaxCriterion_calculate m =
     (case collect (MaximaxCriterion_row m) [0..<strategiesCount m] of
        Inl e \<Rightarrow> Inl e
      | Inr vs \<Rightarrow>
          (let maxValue = math_max vs; strategyIndex = indexOf vs maxValue
           in Inr \<lparr>values_r = vs, optimalIndex = strategyIndex, optimalValue = maxValue,
                    strategy = strategy_at m strategyIndex, ctype = maximax\<rparr>))"

text \<open>
  Savage: the column maxima first, then for every row the largest regret. The inner
  loop reads \<^verbatim>\<open>matrix.data[i][j]\<close>, which faults on a missing row.
\<close>

definition SavageCriterion_risk :: "matrix \<Rightarrow> jsnum list \<Rightarrow> nat \<Rightarrow> nat \<Rightarrow> jsnum \<Rightarrow> error + jsnum"
  where
  "SavageCriterion_risk m maxByState i j maxRisk =
     (if \<not> row_present m i then Inl TypeError
      else let risk = js_sub (maxByState ! j) (cell m i j)
           in Inr (if js_gt risk maxRisk then risk else maxRisk))"

definition SavageCriterion_row :: "matrix \<Rightarrow> jsnum list \<Rightarrow> nat \<Rightarrow> error + jsnum" where
  "SavageCriterion_row m maxByState i =
     accumulate (SavageCriterion_risk m maxByState i) [0..<statesCount m] NInf"

definition SavageCriterion_calculate :: "matrix \<Rightarrow> error + criterion_result" where
  "SavageCriterion_calculate m =
     (let maxByState = map (getColumnMax m) [0..<statesCount m]
      in case collect (SavageCriterion_row m maxByState) [0..<strategiesCount m] of
           Inl e \<Rightarrow> Inl e
         | Inr riskValues \<Rightarrow>
             (let minRisk = math_min riskValues; strategyIndex = indexOf riskValues minRisk
              in Inr \<lparr>values_r = riskValues, optimalIndex = strategyIndex,
                       optimalValue = minRisk, strategy = strategy_at m strategyIndex,
                       ctype = savage\<rparr>))"

text \<open>Hurwitz reads the matrix through \<open>getRowMin\<close> and \<open>getRowMax\<close> only: no fault.\<close>

definition HurwitzCriterion_row :: "jsnum \<Rightarrow> matrix \<Rightarrow> nat \<Rightarrow> error + jsnum" where
  "HurwitzCriterion_row alpha m i =
     (let minVal = getRowMin m i; maxVal = getRowMax m i
      in Inr (js_add (js_mul alpha maxVal) (js_mul (js_sub (Fin 1) alpha) minVal)))"

definition HurwitzCriterion_calculate :: "jsnum \<Rightarrow> matrix \<Rightarrow> error + criterion_result" where
  "HurwitzCriterion_calculate alpha m =
     (case collect (HurwitzCriterion_row alpha m) [0..<strategiesCount m] of
        Inl e \<Rightarrow> Inl e
      | Inr vs \<Rightarrow>
          (let maxValue = math_max vs; strategyIndex = indexOf vs maxValue
           in Inr \<lparr>values_r = vs, optimalIndex = strategyIndex, optimalValue = maxValue,
                    strategy = strategy_at m strategyIndex, ctype = hurwitz\<rparr>))"

text \<open>
  Bayes: the probability vector is \<open>None\<close> when the criterion was constructed without
  one. Each step reads \<^verbatim>\<open>matrix.data[i][j]\<close> and \<^verbatim>\<open>this.probabilities[j]\<close> and then calls
  \<^verbatim>\<open>this.probabilities[j].toFixed(3)\<close> for the trace.
\<close>

definition BayesCriterion_term ::
  "jsnum list option \<Rightarrow> matrix \<Rightarrow> nat \<Rightarrow> nat \<Rightarrow> jsnum \<Rightarrow> error + jsnum" where
  "BayesCriterion_term probabilities m i j expected =
     (if \<not> row_present m i then Inl TypeError
      else case probabilities of
             None \<Rightarrow> Inl TypeError
           | Some p \<Rightarrow>
               if j < length p then Inr (js_add expected (js_mul (cell m i j) (p ! j)))
               else Inl TypeError)"

definition BayesCriterion_row :: "jsnum list option \<Rightarrow> matrix \<Rightarrow> nat \<Rightarrow> error + jsnum" where
  "BayesCriterion_row probabilities m i =
     accumulate (BayesCriterion_term probabilities m i) [0..<statesCount m] (Fin 0)"

definition BayesCriterion_calculate :: "jsnum list option \<Rightarrow> matrix \<Rightarrow> error + criterion_result"
  where
  "BayesCriterion_calculate probabilities m =
     (case collect (BayesCriterion_row probabilities m) [0..<strategiesCount m] of
        Inl e \<Rightarrow> Inl e
      | Inr vs \<Rightarrow>
          (let maxValue = math_max vs; strategyIndex = indexOf vs maxValue
           in Inr \<lparr>values_r = vs, optimalIndex = strategyIndex, optimalValue = maxValue,
                    strategy = strategy_at m strategyIndex, ctype = bayes\<rparr>))"

definition LaplaceCriterion_term :: "jsnum \<Rightarrow> matrix \<Rightarrow> nat \<Rightarrow> nat \<Rightarrow> jsnum \<Rightarrow> error + jsnum"
  where
  "LaplaceCriterion_term laplaceProb m i j expected =
     (if \<not> row_present m i then Inl TypeError
      else Inr (js_add expected (js_mul (cell m i j) laplaceProb)))"

definition LaplaceCriterion_row :: "jsnum \<Rightarrow> matrix \<Rightarrow> nat \<Rightarrow> error + jsnum" where
  "LaplaceCriterion_row laplaceProb m i =
     accumulate (LaplaceCriterion_term laplaceProb m i) [0..<statesCount m] (Fin 0)"

definition LaplaceCriterion_calculate :: "matrix \<Rightarrow> error + criterion_result" where
  "LaplaceCriterion_calculate m =
     (let laplaceProb = js_div (Fin 1) (Fin (real (statesCount m)))
      in case collect (LaplaceCriterion_row laplaceProb m) [0..<strategiesCount m] of
           Inl e \<Rightarrow> Inl e
         | Inr vs \<Rightarrow>
             (let maxValue = math_max vs; strategyIndex = indexOf vs maxValue
              in Inr \<lparr>values_r = vs, optimalIndex = strategyIndex, optimalValue = maxValue,
                       strategy = strategy_at m strategyIndex, ctype = laplace\<rparr>))"

section \<open>The factory\<close>

datatype criterion =
    WaldCriterion
  | MaximaxCriterion
  | SavageCriterion
  | HurwitzCriterion jsnum
  | BayesCriterion "jsnum list option"
  | LaplaceCriterion

fun calculate :: "criterion \<Rightarrow> matrix \<Rightarrow> error + criterion_result" where
  "calculate WaldCriterion m = WaldCriterion_calculate m"
| "calculate MaximaxCriterion m = MaximaxCriterion_calculate m"
| "calculate SavageCriterion m = SavageCriterion_calculate m"
| "calculate (HurwitzCriterion alpha) m = HurwitzCriterion_calculate alpha m"
| "calculate (BayesCriterion probabilities) m = BayesCriterion_calculate probabilities m"
| "calculate LaplaceCriterion m = LaplaceCriterion_calculate m"

text \<open>
  The parameter bag: a field is \<open>None\<close> when the caller left it out. An array is truthy
  even when empty, so only a missing vector is refused.
\<close>

record params =
  alpha :: "jsnum option"
  probabilities :: "jsnum list option"

text \<open>\<^verbatim>\<open>toLowerCase\<close> on the letters that can occur in the six identifiers (ASCII).\<close>

definition lower_char :: "char \<Rightarrow> char" where
  "lower_char c =
     (let n = (of_char c :: nat) in if 65 \<le> n \<and> n \<le> 90 then char_of (n + 32) else c)"

definition toLowerCase :: "string \<Rightarrow> string" where
  "toLowerCase s = map lower_char s"

text \<open>\<^verbatim>\<open>params.alpha || 0.5\<close>: the default replaces every falsy value.\<close>

definition alpha_or_default :: "jsnum option \<Rightarrow> jsnum" where
  "alpha_or_default a =
     (case a of None \<Rightarrow> Fin (1 / 2) | Some x \<Rightarrow> if js_truthy x then x else Fin (1 / 2))"

definition createCriterion :: "string \<Rightarrow> params \<Rightarrow> error + criterion" where
  "createCriterion type params =
     (let t = toLowerCase type in
        if t = ''wald'' then Inr WaldCriterion
        else if t = ''maximax'' then Inr MaximaxCriterion
        else if t = ''savage'' then Inr SavageCriterion
        else if t = ''hurwitz'' then Inr (HurwitzCriterion (alpha_or_default (alpha params)))
        else if t = ''bayes'' then
          (case probabilities params of
             None \<Rightarrow> Inl ProbabilitiesRequired
           | Some p \<Rightarrow> Inr (BayesCriterion (Some p)))
        else if t = ''laplace'' then Inr LaplaceCriterion
        else Inl (UnknownCriterionType type))"

section \<open>The results analyzer\<close>

text \<open>
  A recommendation keeps the fields the analyzer reads or numbers; \<^verbatim>\<open>details\<close> and the
  creation time are stored by the source and never read by the operations below.
  The strategy handed to \<open>addRecommendation\<close> is \<open>None\<close> for \<^verbatim>\<open>undefined\<close> or \<^verbatim>\<open>null\<close>.
\<close>

record recommendation =
  rec_id :: nat
  rec_criterion :: string
  rec_strategy :: string
  rec_type :: string

record analyzer =
  recommendations :: "recommendation list"
  timestamp :: "string option"
  analysisType :: string

definition new_analyzer :: analyzer where
  "new_analyzer = \<lparr>recommendations = [], timestamp = None, analysisType = []\<rparr>"

definition addRecommendation :: "string \<Rightarrow> string option \<Rightarrow> string \<Rightarrow> analyzer \<Rightarrow> analyzer"
  where
  "addRecommendation criterionName strategyName criterionType a =
     (let recommendation =
            \<lparr>rec_id = length (recommendations a) + 1,
             rec_criterion = criterionName,
             rec_strategy =
               (case strategyName of
                  None \<Rightarrow> undetermined
                | Some s \<Rightarrow> if s = [] then undetermined else s),
             rec_type = criterionType\<rparr>
      in a\<lparr>recommendations := recommendations a @ [recommendation]\<rparr>)"

definition setAnalysisType :: "string \<Rightarrow> string \<Rightarrow> analyzer \<Rightarrow> analyzer" where
  "setAnalysisType now type a = a\<lparr>analysisType := type, timestamp := Some now\<rparr>"

definition clear :: "analyzer \<Rightarrow> analyzer" where
  "clear a = a\<lparr>recommendations := [], timestamp := None, analysisType := []\<rparr>"

text \<open>
  The frequency object is an association list in the order the keys were first written:
  \<open>AList.update\<close> overwrites a key in place and appends a new one.
  \<^verbatim>\<open>frequency[k] || 0\<close> is \<open>0\<close> for a key that is not there yet. The keys are read as
  own properties; the strategy names are those of the matrix rows, and no name that
  \<^verbatim>\<open>Object.prototype\<close> defines is among them.
\<close>

definition is_valid :: "recommendation \<Rightarrow> bool" where
  "is_valid rec = (rec_strategy rec \<noteq> [] \<and> rec_strategy rec \<noteq> undetermined)"

definition count_strategy :: "recommendation \<Rightarrow> (string \<times> nat) list \<Rightarrow> (string \<times> nat) list"
  where
  "count_strategy rec frequency =
     (if is_valid rec
      then AList.update (rec_strategy rec)
             ((case map_of frequency (rec_strategy rec) of None \<Rightarrow> 0 | Some c \<Rightarrow> c) + 1)
             frequency
      else frequency)"

definition getFrequencyAnalysis :: "analyzer \<Rightarrow> (string \<times> nat) list" where
  "getFrequencyAnalysis a = fold count_strategy (recommendations a) []"

text \<open>
  \<^verbatim>\<open>Object.entries\<close>, \<^verbatim>\<open>Object.values\<close> and \<^verbatim>\<open>Object.keys\<close> enumerate the keys that are
  array indices (canonical decimal numerals below \<open>2\<^sup>3\<^sup>2 - 1\<close>) first, in ascending numeric
  order, and then the other keys in the order they were created.
\<close>

definition is_digit :: "char \<Rightarrow> bool" where
  "is_digit c = (48 \<le> (of_char c :: nat) \<and> (of_char c :: nat) \<le> 57)"

definition decimal :: "string \<Rightarrow> nat" where
  "decimal s = fold (\<lambda>c n. 10 * n + ((of_char c :: nat) - 48)) s 0"

definition array_index :: "string \<Rightarrow> nat option" where
  "array_index s =
     (if s \<noteq> [] \<and> list_all is_digit s \<and> (length s = 1 \<or> hd s \<noteq> CHR ''0'')
         \<and> decimal s < 4294967295
      then Some (decimal s) else None)"

definition index_key :: "string \<times> 'v \<Rightarrow> nat" where
  "index_key kv = (case array_index (fst kv) of None \<Rightarrow> 0 | Some n \<Rightarrow> n)"

definition object_entries :: "(string \<times> 'v) list \<Rightarrow> (string \<times> 'v) list" where
  "object_entries obj =
     sort_key index_key (filter (\<lambda>kv. array_index (fst kv) \<noteq> None) obj)
     @ filter (\<lambda>kv. array_index (fst kv) = None) obj"

definition object_values :: "(string \<times> 'v) list \<Rightarrow> 'v list" where
  "object_values obj = map snd (object_entries obj)"


text \<open>
  The final recommendation. The object returned for an empty frequency map has no
  \<^verbatim>\<open>hasTie\<close> and no \<^verbatim>\<open>alternatives\<close> field: both are \<open>None\<close> there.
  \<^verbatim>\<open>entries.sort((a, b) => b[1] - a[1])\<close> is a stable sort by descending count, which
  \<open>sort_key\<close> on the negated count is. The quotient of the two counts is taken over the
  reals, and \<^verbatim>\<open>Math.round\<close> rounds a half upwards.
\<close>

datatype confidence_level = high | medium | low

record final_recommendation =
  final_strategy :: "string option"
  frequency :: nat
  total_r :: nat
  percentage :: int
  confidence :: confidence_level
  hasTie :: "bool option"
  alternatives :: "string list option"







definition hasConflicts :: "analyzer \<Rightarrow> bool" where
  "hasConflicts a =
     (let frequency = getFrequencyAnalysis a;
          vals = object_values frequency;
          maxFreq = math_max (map (\<lambda>freq. Fin (real freq)) vals)
      in length (filter (\<lambda>freq. js_eq (Fin (real freq)) maxFreq) vals) > 1)"

text \<open>A run of the analyzer: the recommendations added, in order, to a fresh analyzer.\<close>

fun add_all :: "(string \<times> string option \<times> string) list \<Rightarrow> analyzer \<Rightarrow> analyzer" where
  "add_all [] a = a"
| "add_all ((criterionName, strategyName, criterionType) # rest) a =
     add_all rest (addRecommendation criterionName strategyName criterionType a)"

section \<open>Concrete inputs\<close>

text \<open>Four strategies and four states; Wald and Maximax choose different rows.\<close>

definition scenario_matrix :: matrix where
  "scenario_matrix =
     \<lparr>strategiesCount = 4, statesCount = 4,
      data = [[Fin 320, Fin 780, Fin 640, Fin 500], [Fin 900, Fin 400, Fin 300, Fin 700],
              [Fin 600, Fin 950, Fin 200, Fin 450], [Fin 500, Fin 550, Fin 850, Fin 300]],
      strategies = [''R1'', ''R2'', ''R3'', ''R4''],
      states = [''S1'', ''S2'', ''S3'', ''S4'']\<rparr>"


text \<open>A row with one cell where two states are announced.\<close>

definition short_row_matrix :: matrix where
  "short_row_matrix =
     \<lparr>strategiesCount = 1, statesCount = 2, data = [[Fin 5]],
      strategies = [''R1''], states = [''S1'', ''S2'']\<rparr>"

text \<open>\<^verbatim>\<open>new DecisionMatrix(1, 0)\<close>: one strategy, no state.\<close>

definition no_state_matrix :: matrix where
  "no_state_matrix =
     \<lparr>strategiesCount = 1, statesCount = 0, data = [[]], strategies = [''R1''], states = []\<rparr>"

text \<open>\<^verbatim>\<open>new DecisionMatrix(0, 2)\<close>: no strategy.\<close>

definition empty_matrix :: matrix where
  "empty_matrix =
     \<lparr>strategiesCount = 0, statesCount = 2, data = [], strategies = [],
      states = [''S1'', ''S2'']\<rparr>"

text \<open>One strategy, one state.\<close>

definition unit_matrix :: matrix where
  "unit_matrix =
     \<lparr>strategiesCount = 1, statesCount = 1, data = [[Fin 2]], strategies = [''R1''],
      states = [''S1'']\<rparr>"

text \<open>Four criteria, one of which failed to name a strategy.\<close>

definition mixed_run :: "(string \<times> string option \<times> string) list" where
  "mixed_run =
     [(''Wald'', Some ''A'', ''wald''), (''Maximax'', None, ''maximax''),
      (''Savage'', Some ''B'', ''savage''), (''Hurwitz'', Some ''A'', ''hurwitz'')]"

text \<open>Two criteria, neither of which named a strategy.\<close>

definition undetermined_run :: "(string \<times> string option \<times> string) list" where
  "undetermined_run = [(''Wald'', None, ''wald''), (''Bayes'', Some [], ''bayes'')]"



section \<open>The frequency table\<close>













section \<open>Conflicts\<close>

lemma fold_count_invalid:
  "\<forall>r \<in> set recs. \<not> is_valid r \<Longrightarrow> fold count_strategy recs f = f"
  by (induction recs arbitrary: f) (simp_all add: count_strategy_def)

lemma hasConflicts_empty_frequency:
  "getFrequencyAnalysis a = [] \<Longrightarrow> \<not> hasConflicts a"
  by (simp add: hasConflicts_def object_values_def object_entries_def)

text \<open>
  Claim C10. On a fresh analyzer, on a cleared one, and whenever every recorded
  recommendation is undetermined, \<open>hasConflicts\<close> returns false: \<^verbatim>\<open>Math.max()\<close> of no
  argument is \<^verbatim>\<open>-Infinity\<close> and the filter of the empty list of counts is empty.
\<close>

theorem hasConflicts_false_without_valid:
  "\<not> hasConflicts new_analyzer
   \<and> \<not> hasConflicts (clear a)
   \<and> ((\<forall>r \<in> set (recommendations a). rec_strategy r = undetermined) \<longrightarrow> \<not> hasConflicts a)"
proof -
  have "getFrequencyAnalysis new_analyzer = []"
    by (simp add: getFrequencyAnalysis_def new_analyzer_def)
  moreover have "getFrequencyAnalysis (clear a) = []"
    by (simp add: getFrequencyAnalysis_def clear_def)
  moreover have "getFrequencyAnalysis a = []"
    if "\<forall>r \<in> set (recommendations a). rec_strategy r = undetermined"
    using that by (simp add: getFrequencyAnalysis_def fold_count_invalid is_valid_def)
  ultimately show ?thesis using hasConflicts_empty_frequency by blast
qed

theorem hasConflicts_false_without_valid_witness:
  "map rec_strategy (recommendations (add_all undetermined_run new_analyzer))
     = [undetermined, undetermined]
   \<and> \<not> hasConflicts (add_all undetermined_run new_analyzer)
   \<and> \<not> hasConflicts (clear (add_all mixed_run new_analyzer))"
proof -
  have recs: "map rec_strategy (recommendations (add_all undetermined_run new_analyzer))
                = [undetermined, undetermined]"
    by (simp add: undetermined_run_def addRecommendation_def new_analyzer_def)
  have "set (map rec_strategy (recommendations (add_all undetermined_run new_analyzer)))
          = {undetermined}"
    unfolding recs by simp
  then have "\<forall>r \<in> set (recommendations (add_all undetermined_run new_analyzer)).
               rec_strategy r = undetermined"
    by auto
  then show ?thesis
    using recs hasConflicts_false_without_valid [of "add_all undetermined_run new_analyzer"]
      hasConflicts_false_without_valid [of "add_all mixed_run new_analyzer"]
    by blast
qed

section \<open>Ties\<close>














section \<open>Percentage and confidence\<close>










section \<open>The factory's default for alpha\<close>

text \<open>
  Claim C8. \<open>createCriterion\<close> for \<^verbatim>\<open>'hurwitz'\<close> is claimed to keep every provided alpha in
  \<open>[0, 1]\<close>. At the provided alpha \<open>0\<close> the source's \<^verbatim>\<open>params.alpha || 0.5\<close> takes the
  default instead: the criterion is built with alpha \<open>0.5\<close>.
\<close>

theorem createCriterion_hurwitz_alpha_zero:
  "createCriterion ''hurwitz'' \<lparr>alpha = Some (Fin 0), probabilities = None\<rparr>
     = Inr (HurwitzCriterion (Fin (1 / 2)))"
  by (simp add: createCriterion_def toLowerCase_def lower_char_def alpha_or_default_def
      js_truthy_def)

section \<open>Loops, extrema and first indices\<close>

lemma collect_total:
  "\<forall>i \<in> set is. body i = Inr (f i) \<Longrightarrow> collect body is = Inr (map f is)"
  by (induction "is") simp_all

lemma collect_cong:
  "\<forall>i \<in> set is. body i = body' i \<Longrightarrow> collect body is = collect body' is"
  by (induction "is") (simp_all split: sum.splits)

lemma accumulate_cong:
  "\<forall>j \<in> set js. \<forall>acc. body j acc = body' j acc \<Longrightarrow>
   accumulate body js acc = accumulate body' js acc"
  by (induction js arbitrary: acc) (simp_all split: sum.splits)

lemma accumulate_fault:
  assumes "j \<in> set js" and "\<forall>acc. body j acc = Inl e"
    and "\<forall>k acc e'. body k acc = Inl e' \<longrightarrow> e' = e"
  shows "accumulate body js acc = Inl e"
  using assms(1)
proof (induction js arbitrary: acc)
  case Nil then show ?case by simp
next
  case (Cons k js)
  show ?case
  proof (cases "body k acc")
    case (Inl e') then show ?thesis using assms(3) by simp
  next
    case (Inr acc')
    then have "k \<noteq> j" using assms(2) by auto
    then show ?thesis using Cons Inr by simp
  qed
qed

lemma index_from_bounds:
  "index_from k xs v = - 1 \<or> (int k \<le> index_from k xs v \<and> index_from k xs v < int k + int (length xs))"
  by (induction k xs v rule: index_from.induct) auto


lemma index_from_none:
  "\<forall>x \<in> set xs. \<not> js_eq x v \<Longrightarrow> index_from k xs v = - 1"
  by (induction xs arbitrary: k) simp_all


lemma indexOf_none: "\<forall>x \<in> set xs. \<not> js_eq x v \<Longrightarrow> indexOf xs v = - 1"
  by (simp add: indexOf_def index_from_none)



lemma js_gt_trans_le:
  "x \<noteq> NaN \<Longrightarrow> y \<noteq> NaN \<Longrightarrow> z \<noteq> NaN \<Longrightarrow> \<not> js_gt y x \<Longrightarrow> \<not> js_gt z y \<Longrightarrow> \<not> js_gt z x"
  by (cases x; cases y; cases z) simp_all

lemma js_gt_asym: "js_gt x y \<Longrightarrow> \<not> js_gt y x"
  by (cases x; cases y) simp_all

lemma js_gt_irrefl: "\<not> js_gt x x"
  by (cases x) simp_all

lemma not_gt_NInf: "x \<noteq> NaN \<Longrightarrow> \<not> js_gt x NInf \<Longrightarrow> x = NInf"
  by (cases x) simp_all

lemma not_lt_PInf: "x \<noteq> NaN \<Longrightarrow> \<not> js_gt PInf x \<Longrightarrow> x = PInf"
  by (cases x) simp_all

lemma fold_max_step_spec:
  assumes "acc \<noteq> NaN" and "NaN \<notin> set xs"
  shows "fold max_step xs acc \<noteq> NaN
    \<and> (fold max_step xs acc = acc \<or> fold max_step xs acc \<in> set xs)
    \<and> \<not> js_gt acc (fold max_step xs acc)
    \<and> (\<forall>x \<in> set xs. \<not> js_gt x (fold max_step xs acc))"
  using assms
proof (induction xs arbitrary: acc)
  case Nil then show ?case by (simp add: js_gt_irrefl)
next
  case (Cons x xs)
  define acc' where "acc' = max_step x acc"
  have x: "x \<noteq> NaN" and xs: "NaN \<notin> set xs" using Cons.prems by auto
  have acc': "acc' \<noteq> NaN" "acc' = acc \<or> acc' = x" "\<not> js_gt acc acc'" "\<not> js_gt x acc'"
    using x Cons.prems(1) by (auto simp: acc'_def max_step_def js_gt_irrefl js_gt_asym)
  have ih: "fold max_step xs acc' \<noteq> NaN
    \<and> (fold max_step xs acc' = acc' \<or> fold max_step xs acc' \<in> set xs)
    \<and> \<not> js_gt acc' (fold max_step xs acc')
    \<and> (\<forall>y \<in> set xs. \<not> js_gt y (fold max_step xs acc'))"
    using Cons.IH [OF acc'(1) xs] .
  have "\<not> js_gt acc (fold max_step xs acc')"
    using js_gt_trans_le [of "fold max_step xs acc'" acc' acc] ih acc' Cons.prems(1) by blast
  moreover have "\<not> js_gt x (fold max_step xs acc')"
    using js_gt_trans_le [of "fold max_step xs acc'" acc' x] ih acc' x by blast
  ultimately show ?case using ih acc'(2) by (auto simp: acc'_def)
qed

lemma fold_min_step_spec:
  assumes "acc \<noteq> NaN" and "NaN \<notin> set xs"
  shows "fold min_step xs acc \<noteq> NaN
    \<and> (fold min_step xs acc = acc \<or> fold min_step xs acc \<in> set xs)
    \<and> \<not> js_gt (fold min_step xs acc) acc
    \<and> (\<forall>x \<in> set xs. \<not> js_gt (fold min_step xs acc) x)"
  using assms
proof (induction xs arbitrary: acc)
  case Nil then show ?case by (simp add: js_gt_irrefl)
next
  case (Cons x xs)
  define acc' where "acc' = min_step x acc"
  have x: "x \<noteq> NaN" and xs: "NaN \<notin> set xs" using Cons.prems by auto
  have acc': "acc' \<noteq> NaN" "acc' = acc \<or> acc' = x" "\<not> js_gt acc' acc" "\<not> js_gt acc' x"
    using x Cons.prems(1) by (auto simp: acc'_def min_step_def js_gt_irrefl js_gt_asym)
  have ih: "fold min_step xs acc' \<noteq> NaN
    \<and> (fold min_step xs acc' = acc' \<or> fold min_step xs acc' \<in> set xs)
    \<and> \<not> js_gt (fold min_step xs acc') acc'
    \<and> (\<forall>y \<in> set xs. \<not> js_gt (fold min_step xs acc') y)"
    using Cons.IH [OF acc'(1) xs] .
  have "\<not> js_gt (fold min_step xs acc') acc"
    using js_gt_trans_le [of acc acc' "fold min_step xs acc'"] ih acc' Cons.prems(1) by blast
  moreover have "\<not> js_gt (fold min_step xs acc') x"
    using js_gt_trans_le [of x acc' "fold min_step xs acc'"] ih acc' x by blast
  ultimately show ?case using ih acc'(2) by (auto simp: acc'_def)
qed

lemma math_max_spec:
  assumes "NaN \<notin> set xs" and "xs \<noteq> []"
  shows "math_max xs \<in> set xs \<and> math_max xs \<noteq> NaN \<and> (\<forall>x \<in> set xs. \<not> js_gt x (math_max xs))"
proof -
  have spec: "math_max xs \<noteq> NaN \<and> (math_max xs = NInf \<or> math_max xs \<in> set xs)
      \<and> (\<forall>x \<in> set xs. \<not> js_gt x (math_max xs))"
    using fold_max_step_spec [of NInf xs] assms(1) by (simp add: math_max_def)
  have "math_max xs \<in> set xs"
  proof (cases "math_max xs = NInf")
    case True
    have "hd xs \<in> set xs" using assms(2) by simp
    moreover from this have "hd xs = NInf"
      using spec True assms(1) not_gt_NInf [of "hd xs"] by metis
    ultimately show ?thesis using True by simp
  next
    case False then show ?thesis using spec by simp
  qed
  then show ?thesis using spec by simp
qed

lemma math_min_spec:
  assumes "NaN \<notin> set xs" and "xs \<noteq> []"
  shows "math_min xs \<in> set xs \<and> math_min xs \<noteq> NaN \<and> (\<forall>x \<in> set xs. \<not> js_gt (math_min xs) x)"
proof -
  have spec: "math_min xs \<noteq> NaN \<and> (math_min xs = PInf \<or> math_min xs \<in> set xs)
      \<and> (\<forall>x \<in> set xs. \<not> js_gt (math_min xs) x)"
    using fold_min_step_spec [of PInf xs] assms(1) by (simp add: math_min_def)
  have "math_min xs \<in> set xs"
  proof (cases "math_min xs = PInf")
    case True
    have "hd xs \<in> set xs" using assms(2) by simp
    moreover from this have "hd xs = PInf"
      using spec True assms(1) not_lt_PInf [of "hd xs"] by metis
    ultimately show ?thesis using True by simp
  next
    case False then show ?thesis using spec by simp
  qed
  then show ?thesis using spec by simp
qed


section \<open>The tie-break\<close>





section \<open>Laplace and Bayes\<close>

lemma bayes_term_uniform:
  "j < n \<Longrightarrow> BayesCriterion_term (Some (replicate n lp)) m i j acc = LaplaceCriterion_term lp m i j acc"
  by (simp add: BayesCriterion_term_def LaplaceCriterion_term_def)

lemma bayes_row_uniform:
  "BayesCriterion_row (Some (replicate (statesCount m) lp)) m i = LaplaceCriterion_row lp m i"
  unfolding BayesCriterion_row_def LaplaceCriterion_row_def
  by (rule accumulate_cong) (simp add: bayes_term_uniform)

lemma bayes_collect_uniform:
  "collect (BayesCriterion_row (Some (replicate (statesCount m) lp)) m) is
     = collect (LaplaceCriterion_row lp m) is"
  by (rule collect_cong) (simp add: bayes_row_uniform)

lemma laplace_bayes_values:
  "map_sum id values_r (LaplaceCriterion_calculate m)
     = map_sum id values_r
         (BayesCriterion_calculate
            (Some (replicate (statesCount m) (js_div (Fin 1) (Fin (real (statesCount m)))))) m)"
  by (simp add: LaplaceCriterion_calculate_def BayesCriterion_calculate_def Let_def
      bayes_collect_uniform split: sum.splits)

text \<open>
  Claim C6. For every matrix, Laplace and Bayes with the uniform vector (every entry
  \<^verbatim>\<open>1 / statesCount\<close>) end alike: both fault, or both return the same score vector.
  The two loops apply the same operations to the same operands, so the equality needs
  no fact about the arithmetic. For \<open>1 \<le> statesCount\<close> the entries are the finite number
  \<open>1/N\<close>, and every finite score of Laplace is matched by a finite score of Bayes within
  \<open>10\<^sup>-\<^sup>9\<close>.
\<close>

theorem laplace_is_uniform_bayes:
  "map_sum id values_r (LaplaceCriterion_calculate m)
     = map_sum id values_r
         (BayesCriterion_calculate
            (Some (replicate (statesCount m) (js_div (Fin 1) (Fin (real (statesCount m)))))) m)
   \<and> (\<forall>rl. 1 \<le> statesCount m \<and> LaplaceCriterion_calculate m = Inr rl \<longrightarrow>
         (\<exists>rb. BayesCriterion_calculate
                  (Some (replicate (statesCount m) (Fin (1 / real (statesCount m))))) m = Inr rb
               \<and> length (values_r rb) = length (values_r rl)
               \<and> (\<forall>i < length (values_r rl). \<forall>x. values_r rl ! i = Fin x \<longrightarrow>
                     (\<exists>y. values_r rb ! i = Fin y \<and> \<bar>x - y\<bar> \<le> 1 / 10 ^ 9))))"
proof -
  have second: "\<exists>rb. BayesCriterion_calculate
                  (Some (replicate (statesCount m) (Fin (1 / real (statesCount m))))) m = Inr rb
               \<and> length (values_r rb) = length (values_r rl)
               \<and> (\<forall>i < length (values_r rl). \<forall>x. values_r rl ! i = Fin x \<longrightarrow>
                     (\<exists>y. values_r rb ! i = Fin y \<and> \<bar>x - y\<bar> \<le> 1 / 10 ^ 9))"
    if n: "1 \<le> statesCount m" and rl: "LaplaceCriterion_calculate m = Inr rl" for rl
  proof -
    have lp: "js_div (Fin 1) (Fin (real (statesCount m))) = Fin (1 / real (statesCount m))"
      using n by simp
    obtain rb where rb: "BayesCriterion_calculate
        (Some (replicate (statesCount m) (Fin (1 / real (statesCount m))))) m = Inr rb"
      and vs: "values_r rb = values_r rl"
      using laplace_bayes_values [of m] rl unfolding lp
      by (cases "BayesCriterion_calculate
        (Some (replicate (statesCount m) (Fin (1 / real (statesCount m))))) m") auto
    show ?thesis using rb vs by simp
  qed
  show ?thesis using laplace_bayes_values second by blast
qed

theorem laplace_is_uniform_bayes_witness:
  "map_sum id values_r (LaplaceCriterion_calculate scenario_matrix)
     = Inr [Fin 560, Fin 575, Fin 550, Fin 550]
   \<and> map_sum id values_r
        (BayesCriterion_calculate (Some (replicate 4 (Fin (1 / 4)))) scenario_matrix)
     = Inr [Fin 560, Fin 575, Fin 550, Fin 550]"
proof -
  have l: "map_sum id values_r (LaplaceCriterion_calculate scenario_matrix)
     = Inr [Fin 560, Fin 575, Fin 550, Fin 550]"
    by code_simp
  have n: "statesCount scenario_matrix = 4" by (simp add: scenario_matrix_def)
  show ?thesis using l laplace_is_uniform_bayes [of scenario_matrix] unfolding n by simp
qed

section \<open>Degenerate matrices\<close>

lemma zero_strategies:
  assumes "strategiesCount m = 0"
  shows "\<exists>r. calculate c m = Inr r \<and> values_r r = [] \<and> optimalIndex r = - 1
           \<and> optimalValue r = (if c = SavageCriterion then PInf else NInf)
           \<and> strategy r = undetermined"
  using assms
  by (cases c)
    (simp_all add: WaldCriterion_calculate_def MaximaxCriterion_calculate_def
      SavageCriterion_calculate_def HurwitzCriterion_calculate_def BayesCriterion_calculate_def
      LaplaceCriterion_calculate_def Let_def math_max_def math_min_def indexOf_def
      strategy_at_def)

lemma missing_row_soft:
  "\<not> row_present m i \<Longrightarrow> getRowMin m i = Fin 0 \<and> getRowMax m i = Fin 0"
  by (simp add: getRowMin_def getRowMax_def)

lemma column_fold_missing:
  "\<forall>i \<in> set is. row_present m i \<longrightarrow> length (data m ! i) \<le> j \<Longrightarrow>
   fold (column_step m j) is NInf = NInf"
  by (induction "is") (auto simp: column_step_def cell_def)

lemma missing_column_soft:
  "\<forall>i < strategiesCount m. row_present m i \<longrightarrow> length (data m ! i) \<le> j \<Longrightarrow>
   getColumnMax m j = Fin 0"
  by (simp add: getColumnMax_def column_fold_missing)


text \<open>
  Claim C1, as the code has it. On a matrix with no strategy every criterion returns,
  without a fault, no scores, the index \<open>-1\<close> that \<^verbatim>\<open>indexOf\<close> gives for "not found" and
  the undetermined sentinel. Reading a row that is not there through \<open>getRowMin\<close> or
  \<open>getRowMax\<close>, or a column that no row reaches through \<open>getColumnMax\<close>, returns \<open>0\<close>.
\<close>

theorem zero_strategies_and_missing_reads:
  "(strategiesCount m = 0 \<longrightarrow>
      (\<exists>r. calculate c m = Inr r \<and> values_r r = [] \<and> optimalIndex r = - 1
            \<and> strategy r = undetermined))
   \<and> (\<not> row_present m i \<longrightarrow> getRowMin m i = Fin 0 \<and> getRowMax m i = Fin 0)
   \<and> ((\<forall>k < strategiesCount m. row_present m k \<longrightarrow> length (data m ! k) \<le> j)
        \<longrightarrow> getColumnMax m j = Fin 0)"
  using zero_strategies [of m c] missing_row_soft [of m i] missing_column_soft [of m j]
  by blast

theorem zero_strategies_and_missing_reads_witness:
  "strategiesCount empty_matrix = 0
   \<and> (\<exists>r. calculate (BayesCriterion None) empty_matrix = Inr r \<and> values_r r = []
          \<and> optimalIndex r = - 1 \<and> strategy r = undetermined)
   \<and> \<not> row_present short_row_matrix 3
   \<and> getRowMin short_row_matrix 3 = Fin 0 \<and> getRowMax short_row_matrix 3 = Fin 0
   \<and> length (data short_row_matrix ! 0) \<le> 7
   \<and> getColumnMax short_row_matrix 7 = Fin 0"
proof -
  have zero: "strategiesCount empty_matrix = 0" by (simp add: empty_matrix_def)
  have row: "\<not> row_present short_row_matrix 3"
    by (simp add: short_row_matrix_def row_present_def)
  have len: "length (data short_row_matrix ! 0) \<le> 7" by (simp add: short_row_matrix_def)
  then have col: "\<forall>k < strategiesCount short_row_matrix.
      row_present short_row_matrix k \<longrightarrow> length (data short_row_matrix ! k) \<le> 7"
    by (simp add: short_row_matrix_def)
  show ?thesis
    using zero row len col
      zero_strategies_and_missing_reads
        [where m = empty_matrix and c = "BayesCriterion None"]
      zero_strategies_and_missing_reads
        [where m = short_row_matrix and i = 3 and j = 7]
    by blast
qed

text \<open>
  Claim C1 as stated fails: a row that is not fully populated gives Wald an ordinary
  result, and reading a row or a column that does not exist returns \<open>0\<close>, not a fault.
\<close>

theorem short_row_counterexample:
  "WaldCriterion_calculate short_row_matrix
     = Inr \<lparr>values_r = [Fin 5], optimalIndex = 0, optimalValue = Fin 5, strategy = ''R1'',
            ctype = wald\<rparr>
   \<and> getRowMin short_row_matrix 3 = Fin 0
   \<and> getColumnMax short_row_matrix 7 = Fin 0"
  by code_simp

section \<open>The probability vector of Bayes\<close>

lemma collect_first_fault:
  "body i = Inl e \<Longrightarrow> collect body (i # rest) = Inl e"
  by simp

lemma bayes_row_fault:
  assumes "0 < statesCount m"
    and "ps = None \<or> (\<exists>p. ps = Some p \<and> length p < statesCount m)"
  shows "BayesCriterion_row ps m i = Inl TypeError"
proof -
  define j where "j = (case ps of None \<Rightarrow> 0 | Some p \<Rightarrow> length p)"
  have j: "j \<in> set [0..<statesCount m]" using assms by (auto simp: j_def)
  have "\<forall>acc. BayesCriterion_term ps m i j acc = Inl TypeError"
    using assms(2) by (auto simp: BayesCriterion_term_def j_def)
  moreover have "\<forall>k acc e'. BayesCriterion_term ps m i k acc = Inl e' \<longrightarrow> e' = TypeError"
    by (auto simp: BayesCriterion_term_def split: if_splits option.splits)
  ultimately show ?thesis
    unfolding BayesCriterion_row_def using j by (intro accumulate_fault) auto
qed

lemma bayes_calculate_fault:
  assumes "0 < strategiesCount m" and "0 < statesCount m"
    and "ps = None \<or> (\<exists>p. ps = Some p \<and> length p < statesCount m)"
  shows "BayesCriterion_calculate ps m = Inl TypeError"
proof -
  have "[0..<strategiesCount m] = 0 # [1..<strategiesCount m]"
    using assms(1) by (simp add: upt_conv_Cons)
  then have "collect (BayesCriterion_row ps m) [0..<strategiesCount m] = Inl TypeError"
    using bayes_row_fault [OF assms(2,3), of 0] by simp
  then show ?thesis by (simp add: BayesCriterion_calculate_def)
qed

lemma accumulate_total:
  "\<forall>j \<in> set js. \<forall>acc. \<exists>v. body j acc = Inr v \<Longrightarrow> \<exists>v. accumulate body js acc = Inr v"
proof (induction js arbitrary: acc)
  case Nil then show ?case by simp
next
  case (Cons j js)
  have "\<exists>v. body j acc = Inr v" using Cons.prems by simp
  then obtain v where "body j acc = Inr v" by blast
  then show ?case using Cons by simp
qed

lemma collect_no_fault:
  "\<forall>i \<in> set is. \<exists>v. body i = Inr v \<Longrightarrow> \<exists>vs. collect body is = Inr vs"
proof (induction "is")
  case Nil then show ?case by simp
next
  case (Cons i "is")
  have "\<exists>v. body i = Inr v" using Cons.prems by simp
  then obtain v where "body i = Inr v" by blast
  moreover have "\<exists>vs. collect body is = Inr vs" using Cons by simp
  then obtain vs where "collect body is = Inr vs" by blast
  ultimately show ?case by simp
qed

lemma bayes_long_vector:
  assumes "strategiesCount m \<le> length (data m)" and "statesCount m \<le> length p"
  shows "\<exists>r. BayesCriterion_calculate (Some p) m = Inr r"
    and "BayesCriterion_calculate (Some p) m
           = BayesCriterion_calculate (Some (take (statesCount m) p)) m"
proof -
  have "\<exists>v. BayesCriterion_row (Some p) m i = Inr v" if "i < strategiesCount m" for i
    unfolding BayesCriterion_row_def
    using that assms by (intro accumulate_total) (simp add: BayesCriterion_term_def row_present_def)
  then obtain vs where "collect (BayesCriterion_row (Some p) m) [0..<strategiesCount m] = Inr vs"
    using collect_no_fault [of "[0..<strategiesCount m]" "BayesCriterion_row (Some p) m"] by auto
  then show "\<exists>r. BayesCriterion_calculate (Some p) m = Inr r"
    by (simp add: BayesCriterion_calculate_def Let_def)
  have "BayesCriterion_row (Some p) m i = BayesCriterion_row (Some (take (statesCount m) p)) m i"
    for i
    unfolding BayesCriterion_row_def
    using assms(2) by (intro accumulate_cong) (simp add: BayesCriterion_term_def)
  then have "BayesCriterion_row (Some p) m = BayesCriterion_row (Some (take (statesCount m) p)) m"
    by (rule ext)
  then show "BayesCriterion_calculate (Some p) m
           = BayesCriterion_calculate (Some (take (statesCount m) p)) m"
    by (simp add: BayesCriterion_calculate_def)
qed


text \<open>
  Claim C2, as the code has it. With at least one strategy and one state, Bayes faults
  (a \<^verbatim>\<open>TypeError\<close>) when its vector is missing or shorter than the number of states. A
  vector that is long enough never faults on a matrix whose rows are there, and entries
  beyond the number of states are ignored. With no strategy it returns the undetermined
  result whatever the vector. The factory refuses a missing vector.
\<close>

theorem bayes_probability_vector:
  "(0 < strategiesCount m \<and> 0 < statesCount m
      \<and> (ps = None \<or> (\<exists>p. ps = Some p \<and> length p < statesCount m))
      \<longrightarrow> BayesCriterion_calculate ps m = Inl TypeError)
   \<and> (strategiesCount m \<le> length (data m) \<and> statesCount m \<le> length q
      \<longrightarrow> (\<exists>r. BayesCriterion_calculate (Some q) m = Inr r)
          \<and> BayesCriterion_calculate (Some q) m
              = BayesCriterion_calculate (Some (take (statesCount m) q)) m)
   \<and> (strategiesCount m = 0
      \<longrightarrow> (\<exists>r. BayesCriterion_calculate ps m = Inr r \<and> values_r r = []
               \<and> optimalIndex r = - 1 \<and> strategy r = undetermined))
   \<and> createCriterion ''bayes'' \<lparr>alpha = a, probabilities = None\<rparr> = Inl ProbabilitiesRequired"
proof -
  have "createCriterion ''bayes'' \<lparr>alpha = a, probabilities = None\<rparr> = Inl ProbabilitiesRequired"
    by (simp add: createCriterion_def toLowerCase_def lower_char_def)
  then show ?thesis
    using bayes_calculate_fault [of m ps] bayes_long_vector [of m q]
      zero_strategies [of m "BayesCriterion ps"]
    by auto
qed

theorem bayes_probability_vector_witness:
  "0 < strategiesCount unit_matrix \<and> 0 < statesCount unit_matrix
   \<and> BayesCriterion_calculate None unit_matrix = Inl TypeError
   \<and> BayesCriterion_calculate (Some []) unit_matrix = Inl TypeError
   \<and> strategiesCount unit_matrix \<le> length (data unit_matrix)
   \<and> statesCount unit_matrix \<le> length [Fin (1 / 2), Fin (1 / 2)]
   \<and> BayesCriterion_calculate (Some [Fin (1 / 2), Fin (1 / 2)]) unit_matrix
       = BayesCriterion_calculate (Some [Fin (1 / 2)]) unit_matrix
   \<and> strategiesCount empty_matrix = 0
   \<and> (\<exists>r. BayesCriterion_calculate None empty_matrix = Inr r \<and> values_r r = []
               \<and> optimalIndex r = - 1 \<and> strategy r = undetermined)"
proof -
  have u: "0 < strategiesCount unit_matrix" "0 < statesCount unit_matrix"
    "strategiesCount unit_matrix \<le> length (data unit_matrix)"
    "statesCount unit_matrix \<le> length [Fin (1 / 2), Fin (1 / 2)]"
    "take (statesCount unit_matrix) [Fin (1 / 2), Fin (1 / 2)] = [Fin (1 / 2)]"
    by (simp_all add: unit_matrix_def)
  have e: "strategiesCount empty_matrix = 0" by (simp add: empty_matrix_def)
  have short: "\<exists>p. Some [] = Some p \<and> length p < statesCount unit_matrix"
    using u(2) by simp
  show ?thesis
    using u e short
      bayes_probability_vector [where m = unit_matrix and ps = None
        and q = "[Fin (1 / 2), Fin (1 / 2)]"]
      bayes_probability_vector [where m = unit_matrix and ps = "Some []"]
      bayes_probability_vector [where m = empty_matrix and ps = None]
    by metis
qed

text \<open>
  Claim C2 as stated fails: a vector of two probabilities for one state has the wrong
  length, and Bayes returns a result.
\<close>

theorem bayes_long_vector_counterexample:
  "length [Fin (1 / 2), Fin (1 / 2)] \<noteq> statesCount unit_matrix
   \<and> BayesCriterion_calculate (Some [Fin (1 / 2), Fin (1 / 2)]) unit_matrix
     = Inr \<lparr>values_r = [Fin 1], optimalIndex = 0, optimalValue = Fin 1, strategy = ''R1'',
            ctype = bayes\<rparr>"
  by code_simp

section \<open>Hurwitz at alpha 0 and 1\<close>

lemma finite_not_NaN: "list_all is_finite xs \<Longrightarrow> NaN \<notin> set xs"
  by (induction xs) auto

lemma is_finite_Fin: "is_finite x \<Longrightarrow> \<exists>a. x = Fin a"
  by (cases x) simp_all

lemma math_min_finite:
  assumes "xs \<noteq> []" and "list_all is_finite xs"
  shows "\<exists>a. math_min xs = Fin a"
proof -
  have "math_min xs \<in> set xs" using math_min_spec [OF finite_not_NaN [OF assms(2)] assms(1)] by simp
  then have "is_finite (math_min xs)" using assms(2) by (simp add: list_all_iff)
  then show ?thesis by (rule is_finite_Fin)
qed

lemma math_max_finite:
  assumes "xs \<noteq> []" and "list_all is_finite xs"
  shows "\<exists>a. math_max xs = Fin a"
proof -
  have "math_max xs \<in> set xs" using math_max_spec [OF finite_not_NaN [OF assms(2)] assms(1)] by simp
  then have "is_finite (math_max xs)" using assms(2) by (simp add: list_all_iff)
  then show ?thesis by (rule is_finite_Fin)
qed

lemma hurwitz_row_extremes:
  assumes "row_present m i" and "data m ! i \<noteq> []" and "list_all is_finite (data m ! i)"
  shows "HurwitzCriterion_row (Fin 0) m i = Inr (getRowMin m i)"
    and "HurwitzCriterion_row (Fin 1) m i = Inr (getRowMax m i)"
    and "WaldCriterion_row m i = Inr (getRowMin m i)"
    and "MaximaxCriterion_row m i = Inr (getRowMax m i)"
proof -
  obtain a b where "getRowMin m i = Fin a" and "getRowMax m i = Fin b"
    using assms math_min_finite [of "data m ! i"] math_max_finite [of "data m ! i"]
    by (auto simp: getRowMin_def getRowMax_def)
  then show "HurwitzCriterion_row (Fin 0) m i = Inr (getRowMin m i)"
    and "HurwitzCriterion_row (Fin 1) m i = Inr (getRowMax m i)"
    by (simp_all add: HurwitzCriterion_row_def js_sub_def)
  show "WaldCriterion_row m i = Inr (getRowMin m i)"
    and "MaximaxCriterion_row m i = Inr (getRowMax m i)"
    using assms(1) by (simp_all add: WaldCriterion_row_def MaximaxCriterion_row_def)
qed

text \<open>
  Claim C5, as the code has it. On every matrix whose announced rows are there, are not
  empty and hold finite numbers, Wald, Maximax and Hurwitz return, Hurwitz with alpha
  \<open>0\<close> has the scores of Wald and Hurwitz with alpha \<open>1\<close> those of Maximax.
\<close>

theorem hurwitz_extremes_on_finite_rows:
  assumes "rows_finite m"
  shows "\<exists>rw rx rh0 rh1.
           WaldCriterion_calculate m = Inr rw \<and> MaximaxCriterion_calculate m = Inr rx
         \<and> HurwitzCriterion_calculate (Fin 0) m = Inr rh0
         \<and> HurwitzCriterion_calculate (Fin 1) m = Inr rh1
         \<and> values_r rh0 = values_r rw \<and> values_r rh1 = values_r rx"
proof -
  have rows: "\<forall>i \<in> set [0..<strategiesCount m].
      row_present m i \<and> data m ! i \<noteq> [] \<and> list_all is_finite (data m ! i)"
    using assms by (simp add: rows_finite_def list_all_iff)
  have "collect (WaldCriterion_row m) [0..<strategiesCount m]
          = Inr (map (getRowMin m) [0..<strategiesCount m])"
    using rows by (intro collect_total) (simp add: hurwitz_row_extremes)
  moreover have "collect (HurwitzCriterion_row (Fin 0) m) [0..<strategiesCount m]
          = Inr (map (getRowMin m) [0..<strategiesCount m])"
    using rows by (intro collect_total) (simp add: hurwitz_row_extremes)
  moreover have "collect (MaximaxCriterion_row m) [0..<strategiesCount m]
          = Inr (map (getRowMax m) [0..<strategiesCount m])"
    using rows by (intro collect_total) (simp add: hurwitz_row_extremes)
  moreover have "collect (HurwitzCriterion_row (Fin 1) m) [0..<strategiesCount m]
          = Inr (map (getRowMax m) [0..<strategiesCount m])"
    using rows by (intro collect_total) (simp add: hurwitz_row_extremes)
  ultimately show ?thesis
    by (simp add: WaldCriterion_calculate_def MaximaxCriterion_calculate_def
        HurwitzCriterion_calculate_def Let_def)
qed

theorem hurwitz_extremes_on_finite_rows_witness:
  "rows_finite scenario_matrix
   \<and> (\<exists>rw rx rh0 rh1.
           WaldCriterion_calculate scenario_matrix = Inr rw
         \<and> MaximaxCriterion_calculate scenario_matrix = Inr rx
         \<and> HurwitzCriterion_calculate (Fin 0) scenario_matrix = Inr rh0
         \<and> HurwitzCriterion_calculate (Fin 1) scenario_matrix = Inr rh1
         \<and> values_r rh0 = values_r rw \<and> values_r rh1 = values_r rx)"
proof -
  have fin: "rows_finite scenario_matrix" by code_simp
  show ?thesis using fin hurwitz_extremes_on_finite_rows [OF fin] by simp
qed

text \<open>
  Claim C5 as stated fails on a matrix with one strategy and no state: the row is
  empty, its minimum is \<^verbatim>\<open>Infinity\<close> and its maximum \<^verbatim>\<open>-Infinity\<close>, so Wald scores
  \<^verbatim>\<open>Infinity\<close> while Hurwitz with alpha \<open>0\<close> computes \<^verbatim>\<open>0 * -Infinity + 1 * Infinity\<close>, which
  is \<open>NaN\<close>.
\<close>

theorem hurwitz_no_state_counterexample:
  "HurwitzCriterion_calculate (Fin 0) no_state_matrix
     = Inr \<lparr>values_r = [NaN], optimalIndex = - 1, optimalValue = NaN,
            strategy = undetermined, ctype = hurwitz\<rparr>
   \<and> WaldCriterion_calculate no_state_matrix
     = Inr \<lparr>values_r = [PInf], optimalIndex = 0, optimalValue = PInf, strategy = ''R1'',
            ctype = wald\<rparr>"
  by code_simp


end
